theory Spec2Isabelle
  imports Complex_Main "HOL-Library.Sublist"
begin

section \<open>Numbers as the data frame holds them\<close>

text \<open>
  A numeric cell of the data frame is a 64-bit float: a finite number, one of the two
  infinities, or NaN, which is also the marker of a missing cell
  (\<^verbatim>\<open>pd.to_numeric(..., errors='coerce')\<close>). Finite values are modelled as exact
  rationals: rounding, the sign of zero and integer overflow are not modelled. A division
  by zero follows IEEE 754 as numpy and pandas apply it: no exception, the result is an
  infinity (nonzero numerator, sign taken for a positive zero) or NaN (\<open>0 / 0\<close>).
\<close>

datatype float64 = Fin rat | PInf | NInf | NaN

fun is_finite :: "float64 \<Rightarrow> bool" where
  "is_finite (Fin x) = True"
| "is_finite PInf = False"
| "is_finite NInf = False"
| "is_finite NaN = False"

fun fl_neg :: "float64 \<Rightarrow> float64" where
  "fl_neg (Fin a) = Fin (- a)"
| "fl_neg PInf = NInf"
| "fl_neg NInf = PInf"
| "fl_neg NaN = NaN"

fun fl_add :: "float64 \<Rightarrow> float64 \<Rightarrow> float64" where
  "fl_add NaN y = NaN"
| "fl_add x NaN = NaN"
| "fl_add (Fin a) (Fin b) = Fin (a + b)"
| "fl_add PInf NInf = NaN"
| "fl_add NInf PInf = NaN"
| "fl_add PInf y = PInf"
| "fl_add x PInf = PInf"
| "fl_add NInf y = NInf"
| "fl_add x NInf = NInf"

definition fl_sub :: "float64 \<Rightarrow> float64 \<Rightarrow> float64" where
  "fl_sub x y = fl_add x (fl_neg y)"

fun fl_mul :: "float64 \<Rightarrow> float64 \<Rightarrow> float64" where
  "fl_mul NaN y = NaN"
| "fl_mul x NaN = NaN"
| "fl_mul (Fin a) (Fin b) = Fin (a * b)"
| "fl_mul PInf (Fin b) = (if b = 0 then NaN else if 0 < b then PInf else NInf)"
| "fl_mul NInf (Fin b) = (if b = 0 then NaN else if 0 < b then NInf else PInf)"
| "fl_mul (Fin a) PInf = (if a = 0 then NaN else if 0 < a then PInf else NInf)"
| "fl_mul (Fin a) NInf = (if a = 0 then NaN else if 0 < a then NInf else PInf)"
| "fl_mul PInf PInf = PInf"
| "fl_mul PInf NInf = NInf"
| "fl_mul NInf PInf = NInf"
| "fl_mul NInf NInf = PInf"

fun fl_div :: "float64 \<Rightarrow> float64 \<Rightarrow> float64" where
  "fl_div NaN y = NaN"
| "fl_div x NaN = NaN"
| "fl_div (Fin a) (Fin b) =
     (if b \<noteq> 0 then Fin (a / b)
      else if 0 < a then PInf else if a < 0 then NInf else NaN)"
| "fl_div (Fin a) PInf = Fin 0"
| "fl_div (Fin a) NInf = Fin 0"
| "fl_div PInf (Fin b) = (if 0 \<le> b then PInf else NInf)"
| "fl_div NInf (Fin b) = (if 0 \<le> b then NInf else PInf)"
| "fl_div PInf PInf = NaN"
| "fl_div PInf NInf = NaN"
| "fl_div NInf PInf = NaN"
| "fl_div NInf NInf = NaN"

text \<open>Comparisons of a cell with a finite bound; every comparison with NaN is false.\<close>

fun fl_ge :: "float64 \<Rightarrow> rat \<Rightarrow> bool" where
  "fl_ge (Fin x) m = (m \<le> x)"
| "fl_ge PInf m = True"
| "fl_ge NInf m = False"
| "fl_ge NaN m = False"

fun fl_le :: "float64 \<Rightarrow> rat \<Rightarrow> bool" where
  "fl_le (Fin x) m = (x \<le> m)"
| "fl_le PInf m = False"
| "fl_le NInf m = True"
| "fl_le NaN m = False"

fun fl_gt :: "float64 \<Rightarrow> rat \<Rightarrow> bool" where
  "fl_gt (Fin x) m = (m < x)"
| "fl_gt PInf m = True"
| "fl_gt NInf m = False"
| "fl_gt NaN m = False"

text \<open>
  \<^verbatim>\<open>Series.sum()\<close> and \<^verbatim>\<open>Series.mean()\<close> with their default \<^verbatim>\<open>skipna=True\<close>:
  NaN cells are left out; the sum of no cells is 0, the mean of no cells is NaN.
\<close>

primrec series_sum :: "float64 list \<Rightarrow> float64" where
  "series_sum [] = Fin 0"
| "series_sum (x # xs) = (if x = NaN then series_sum xs else fl_add x (series_sum xs))"

definition series_mean :: "float64 list \<Rightarrow> float64" where
  "series_mean xs =
     (let ys = filter (\<lambda>x. x \<noteq> NaN) xs
      in if ys = [] then NaN else fl_div (series_sum ys) (Fin (of_nat (length ys))))"

section \<open>Rows of the data frame\<close>

text \<open>
  A timestamp of the \<^verbatim>\<open>Date\<close> column: year, month, day.
\<close>

type_synonym date = "nat \<times> nat \<times> nat"

text \<open>
  One row. The eight columns of \<^verbatim>\<open>numeric_columns\<close> have the type \<open>'n\<close> (text cells
  before the loader's coercion, floats after it), the \<^verbatim>\<open>Date\<close> column the type \<open>'d\<close>
  (absent before the load). A text cell that is empty in the source is \<open>None\<close>.
\<close>

record ('n, 'd) row =
  accident_severity :: "string option"
  accident_cause :: "string option"
  year :: nat
  month :: string
  number_of_vehicles_involved :: 'n
  number_of_injuries :: 'n
  number_of_fatalities :: 'n
  emergency_response_time :: 'n
  driver_alcohol_level :: 'n
  traffic_volume :: 'n
  medical_cost :: 'n
  economic_loss :: 'n
  pedestrians_involved :: float64
  cyclists_involved :: float64
  insurance_claims :: float64
  date :: 'd

type_synonym accident = "(float64, date) row"

section \<open>The filter engine (data_loader.py, filter_data)\<close>

text \<open>
  The dictionary of filters, read with \<^verbatim>\<open>filters.get(key)\<close> and tested for truth:
  an absent key, \<^verbatim>\<open>None\<close> and an empty list all skip the filter. A range is a pair,
  which is true whatever its bounds; \<open>None\<close> is the absent key.
\<close>

record filters =
  severity :: "string list"
  vehicles_range :: "(rat \<times> rat) option"
  pedestrians :: bool
  cyclists :: bool
  casualties_range :: "(rat \<times> rat) option"
  response_time_range :: "(rat \<times> rat) option"
  causes :: "string list"

text \<open>\<^verbatim>\<open>Series.isin(values)\<close>: a missing cell is in no list of strings.\<close>

definition isin :: "string option \<Rightarrow> string list \<Rightarrow> bool" where
  "isin v xs = (case v of None \<Rightarrow> False | Some s \<Rightarrow> s \<in> set xs)"

definition in_range :: "float64 \<Rightarrow> rat \<times> rat \<Rightarrow> bool" where
  "in_range v rng = (fl_ge v (fst rng) \<and> fl_le v (snd rng))"

definition total_casualties :: "accident \<Rightarrow> float64" where
  "total_casualties r = fl_add (number_of_injuries r) (number_of_fatalities r)"

definition filter_data :: "accident list option \<Rightarrow> filters \<Rightarrow> accident list option" where
  "filter_data df fs =
     (case df of
        None \<Rightarrow> None
      | Some rows \<Rightarrow>
          let d0 = rows;
              d1 = (if severity fs \<noteq> []
                    then filter (\<lambda>r. isin (accident_severity r) (severity fs)) d0 else d0);
              d2 = (case vehicles_range fs of
                      Some rng \<Rightarrow> filter (\<lambda>r. in_range (number_of_vehicles_involved r) rng) d1
                    | None \<Rightarrow> d1);
              d3 = (if pedestrians fs
                    then filter (\<lambda>r. fl_gt (pedestrians_involved r) 0) d2 else d2);
              d4 = (if cyclists fs
                    then filter (\<lambda>r. fl_gt (cyclists_involved r) 0) d3 else d3);
              d5 = (case casualties_range fs of
                      Some rng \<Rightarrow> filter (\<lambda>r. in_range (total_casualties r) rng) d4
                    | None \<Rightarrow> d4);
              d6 = (case response_time_range fs of
                      Some rng \<Rightarrow> filter (\<lambda>r. in_range (emergency_response_time r) rng) d5
                    | None \<Rightarrow> d5);
              d7 = (if causes fs \<noteq> []
                    then filter (\<lambda>r. isin (accident_cause r) (causes fs)) d6 else d6)
          in Some d7)"

text \<open>The conjunction of the seven tests, for one row.\<close>

definition row_matches :: "filters \<Rightarrow> accident \<Rightarrow> bool" where
  "row_matches fs r =
     ((severity fs = [] \<or> isin (accident_severity r) (severity fs)) \<and>
      (case vehicles_range fs of
         Some rng \<Rightarrow> in_range (number_of_vehicles_involved r) rng | None \<Rightarrow> True) \<and>
      (if pedestrians fs then fl_gt (pedestrians_involved r) 0 else True) \<and>
      (if cyclists fs then fl_gt (cyclists_involved r) 0 else True) \<and>
      (case casualties_range fs of
         Some rng \<Rightarrow> in_range (total_casualties r) rng | None \<Rightarrow> True) \<and>
      (case response_time_range fs of
         Some rng \<Rightarrow> in_range (emergency_response_time r) rng | None \<Rightarrow> True) \<and>
      (causes fs = [] \<or> isin (accident_cause r) (causes fs)))"

text \<open>
  The filters a session starts with and returns to on reset (components/filters.py,
  \<^verbatim>\<open>initialize_filters\<close>): the bounds of the three sliders are the ends of their scales.
\<close>

definition initialize_filters :: filters where
  "initialize_filters =
     \<lparr>severity = [], vehicles_range = Some (1, 4), pedestrians = False, cyclists = False,
      casualties_range = Some (0, 23), response_time_range = Some (5, 60), causes = []\<rparr>"

text \<open>The rows on which none of the three initial ranges bites.\<close>

definition in_neutral_domain :: "accident \<Rightarrow> bool" where
  "in_neutral_domain r =
     (in_range (number_of_vehicles_involved r) (1, 4) \<and>
      in_range (total_casualties r) (0, 23) \<and>
      in_range (emergency_response_time r) (5, 60))"

text \<open>
  One field of the filters made stricter: a range replaced by a range inside it, a toggle
  switched on, or a list that was empty (no constraint) replaced by any list.
\<close>

definition narrower :: "(rat \<times> rat) option \<Rightarrow> (rat \<times> rat) option \<Rightarrow> bool" where
  "narrower a b =
     (case a of
        None \<Rightarrow> False
      | Some old \<Rightarrow>
          (case b of
             None \<Rightarrow> False
           | Some new \<Rightarrow> fst old \<le> fst new \<and> snd new \<le> snd old))"

definition restricted :: "filters \<Rightarrow> filters \<Rightarrow> bool" where
  "restricted S S' =
     ((S' = S\<lparr>vehicles_range := vehicles_range S'\<rparr>
         \<and> narrower (vehicles_range S) (vehicles_range S')) \<or>
      (S' = S\<lparr>casualties_range := casualties_range S'\<rparr>
         \<and> narrower (casualties_range S) (casualties_range S')) \<or>
      (S' = S\<lparr>response_time_range := response_time_range S'\<rparr>
         \<and> narrower (response_time_range S) (response_time_range S')) \<or>
      (S' = S\<lparr>pedestrians := True\<rparr> \<and> \<not> pedestrians S) \<or>
      (S' = S\<lparr>cyclists := True\<rparr> \<and> \<not> cyclists S) \<or>
      (S' = S\<lparr>severity := severity S'\<rparr> \<and> severity S = []) \<or>
      (S' = S\<lparr>causes := causes S'\<rparr> \<and> causes S = []))"

text \<open>A row used in the examples.\<close>

definition sample_row :: accident where
  "sample_row =
     \<lparr>accident_severity = Some ''Severe'', accident_cause = Some ''Speeding'',
      year = 2024, month = ''March'',
      number_of_vehicles_involved = Fin 2, number_of_injuries = Fin 3,
      number_of_fatalities = Fin 1, emergency_response_time = Fin 12,
      driver_alcohol_level = Fin 0, traffic_volume = Fin 100,
      medical_cost = Fin 500, economic_loss = Fin 1000,
      pedestrians_involved = Fin 0, cyclists_involved = Fin 1,
      insurance_claims = Fin 200, date = (2024, 3, 1)\<rparr>"

subsection \<open>The same function over a store of data frames\<close>

text \<open>
  To state that the caller's data frame is left alone, data frames live in a store and
  are passed by reference. \<^verbatim>\<open>df.copy()\<close> and every boolean-mask selection
  \<^verbatim>\<open>filtered_df[mask]\<close> build a new frame; the variable \<^verbatim>\<open>filtered_df\<close> is rebound to
  it. No statement of \<^verbatim>\<open>filter_data\<close> writes into an existing frame.
\<close>

type_synonym ref = nat

record store =
  frames :: "ref \<Rightarrow> accident list option"
  next_ref :: ref

definition new_frame :: "accident list \<Rightarrow> store \<Rightarrow> ref \<times> store" where
  "new_frame xs st =
     (next_ref st,
      st\<lparr>frames := (frames st)(next_ref st \<mapsto> xs), next_ref := Suc (next_ref st)\<rparr>)"

definition read_frame :: "store \<Rightarrow> ref \<Rightarrow> accident list" where
  "read_frame st a = (case frames st a of Some xs \<Rightarrow> xs | None \<Rightarrow> [])"

definition df_copy :: "ref \<times> store \<Rightarrow> ref \<times> store" where
  "df_copy p = new_frame (read_frame (snd p) (fst p)) (snd p)"

definition df_mask :: "(accident \<Rightarrow> bool) \<Rightarrow> ref \<times> store \<Rightarrow> ref \<times> store" where
  "df_mask t p = new_frame (filter t (read_frame (snd p) (fst p))) (snd p)"

definition filter_data_st :: "ref option \<Rightarrow> filters \<Rightarrow> store \<Rightarrow> ref option \<times> store" where
  "filter_data_st df fs st =
     (case df of
        None \<Rightarrow> (None, st)
      | Some a \<Rightarrow>
          let d0 = df_copy (a, st);
              d1 = (if severity fs \<noteq> []
                    then df_mask (\<lambda>r. isin (accident_severity r) (severity fs)) d0 else d0);
              d2 = (case vehicles_range fs of
                      Some rng \<Rightarrow> df_mask (\<lambda>r. in_range (number_of_vehicles_involved r) rng) d1
                    | None \<Rightarrow> d1);
              d3 = (if pedestrians fs
                    then df_mask (\<lambda>r. fl_gt (pedestrians_involved r) 0) d2 else d2);
              d4 = (if cyclists fs
                    then df_mask (\<lambda>r. fl_gt (cyclists_involved r) 0) d3 else d3);
              d5 = (case casualties_range fs of
                      Some rng \<Rightarrow> df_mask (\<lambda>r. in_range (total_casualties r) rng) d4
                    | None \<Rightarrow> d4);
              d6 = (case response_time_range fs of
                      Some rng \<Rightarrow> df_mask (\<lambda>r. in_range (emergency_response_time r) rng) d5
                    | None \<Rightarrow> d5);
              d7 = (if causes fs \<noteq> []
                    then df_mask (\<lambda>r. isin (accident_cause r) (causes fs)) d6 else d6)
          in (Some (fst d7), snd d7))"

text \<open>
  A store is well formed when every frame it holds lies below the next free reference.
  \<open>holds st0 p ys\<close> relates the store at the call to a later (reference, store) pair:
  the frames that existed are unchanged and the new reference holds \<open>ys\<close>.
\<close>

definition wf_store :: "store \<Rightarrow> bool" where
  "wf_store st = (\<forall>a. frames st a \<noteq> None \<longrightarrow> a < next_ref st)"

definition holds :: "store \<Rightarrow> ref \<times> store \<Rightarrow> accident list \<Rightarrow> bool" where
  "holds st0 p ys =
     (wf_store (snd p) \<and> next_ref st0 \<le> fst p \<and> fst p < next_ref (snd p) \<and>
      frames (snd p) (fst p) = Some ys \<and>
      (\<forall>b. b < next_ref st0 \<longrightarrow> frames (snd p) b = frames st0 b))"

text \<open>A store that holds one data frame of two rows, for the examples.\<close>

definition one_frame :: store where
  "one_frame = \<lparr>frames = Map.empty(0 \<mapsto> [sample_row, sample_row\<lparr>emergency_response_time := NaN\<rparr>]),
                next_ref = 1\<rparr>"

section \<open>Aggregation (utils/data_processing.py)\<close>

text \<open>
  A value of the statistics dictionary: \<^verbatim>\<open>len(df)\<close> is a Python integer, the sums and
  the mean are floats.
\<close>

datatype pyval = PyInt nat | PyFloat float64

text \<open>
  \<^verbatim>\<open>calculate_summary_stats\<close>: the empty dictionary for no data frame or a data frame
  without rows, the five statistics otherwise.
\<close>

definition calculate_summary_stats :: "accident list option \<Rightarrow> (string \<rightharpoonup> pyval)" where
  "calculate_summary_stats df =
     (case df of
        None \<Rightarrow> Map.empty
      | Some rows \<Rightarrow>
          if rows = [] then Map.empty
          else
            [''total_accidents'' \<mapsto> PyInt (length rows),
             ''total_fatalities'' \<mapsto> PyFloat (series_sum (map number_of_fatalities rows)),
             ''total_injuries'' \<mapsto> PyFloat (series_sum (map number_of_injuries rows)),
             ''avg_response_time'' \<mapsto> PyFloat (series_mean (map emergency_response_time rows)),
             ''total_economic_loss'' \<mapsto> PyFloat (series_sum (map economic_loss rows))])"

text \<open>The finite values of a column, in order.\<close>

fun present_values :: "float64 list \<Rightarrow> rat list" where
  "present_values [] = []"
| "present_values (Fin q # xs) = q # present_values xs"
| "present_values (x # xs) = present_values xs"

text \<open>
  \<^verbatim>\<open>calculate_rates\<close>: one row of rates per row of the data frame; an empty frame for
  no data frame or a data frame without rows.
\<close>

record rates =
  fatality_rate :: float64
  injury_rate :: float64
  severity_index :: float64

definition calculate_rates :: "accident list option \<Rightarrow> rates list" where
  "calculate_rates df =
     (case df of
        None \<Rightarrow> []
      | Some rows \<Rightarrow>
          if rows = [] then []
          else
            map (\<lambda>r.
              \<lparr>fatality_rate = fl_div (number_of_fatalities r) (number_of_vehicles_involved r),
               injury_rate = fl_div (number_of_injuries r) (number_of_vehicles_involved r),
               severity_index =
                 fl_div (fl_add (fl_mul (number_of_fatalities r) (Fin 5)) (number_of_injuries r))
                   (Fin (of_nat (length rows)))\<rparr>) rows)"

text \<open>A cell that is a finite number or missing (no infinity).\<close>

fun finite_or_missing :: "float64 \<Rightarrow> bool" where
  "finite_or_missing (Fin q) = True"
| "finite_or_missing NaN = True"
| "finite_or_missing PInf = False"
| "finite_or_missing NInf = False"

text \<open>The mean of a list of rationals when there is one.\<close>

definition mean_of :: "rat list \<Rightarrow> float64" where
  "mean_of qs = (if qs = [] then NaN else Fin (sum_list qs / of_nat (length qs)))"

section \<open>Period-over-period figures of the pages\<close>

text \<open>
  Timestamps are ordered by year, month, day. \<^verbatim>\<open>Series.max()\<close> of the \<^verbatim>\<open>Date\<close>
  column is \<open>None\<close> (\<^verbatim>\<open>NaT\<close>) for a data frame without rows; every comparison with
  \<^verbatim>\<open>NaT\<close> is false, so the selections made from it are empty.
\<close>

fun date_le :: "date \<Rightarrow> date \<Rightarrow> bool" where
  "date_le (y1, m1, d1) (y2, m2, d2) =
     (y1 < y2 \<or> (y1 = y2 \<and> (m1 < m2 \<or> (m1 = m2 \<and> d1 \<le> d2))))"

primrec series_max :: "date list \<Rightarrow> date option" where
  "series_max [] = None"
| "series_max (d # ds) =
     (case series_max ds of None \<Rightarrow> Some d | Some e \<Rightarrow> Some (if date_le d e then e else d))"

subsection \<open>pages/temporal.py, render_temporal_page\<close>

definition current_data :: "accident list \<Rightarrow> accident list" where
  "current_data filtered_df =
     (case series_max (map date filtered_df) of
        None \<Rightarrow> []
      | Some current_year \<Rightarrow> filter (\<lambda>r. fst (date r) = fst current_year) filtered_df)"

definition previous_data :: "accident list \<Rightarrow> accident list" where
  "previous_data filtered_df =
     (case series_max (map date filtered_df) of
        None \<Rightarrow> []
      | Some current_year \<Rightarrow>
          filter (\<lambda>r. int (fst (date r)) = int (fst current_year) - 1) filtered_df)"

text \<open>
  \<^verbatim>\<open>(len(current_data) - len(previous_data)) / len(previous_data) * 100
      if len(previous_data) > 0 else 0\<close>
\<close>

definition variation_accidents :: "accident list \<Rightarrow> float64" where
  "variation_accidents filtered_df =
     (let c = length (current_data filtered_df); p = length (previous_data filtered_df)
      in if 0 < p then Fin (of_int (int c - int p) / of_nat p * 100) else Fin 0)"

text \<open>
  \<^verbatim>\<open>(current - previous) / previous * 100 if previous > 0 else 0\<close>, on the sums of a
  column.
\<close>

definition guarded_variation :: "float64 \<Rightarrow> float64 \<Rightarrow> float64" where
  "guarded_variation current previous =
     (if fl_gt previous 0
      then fl_mul (fl_div (fl_sub current previous) previous) (Fin 100) else Fin 0)"

definition variation_fatalities :: "accident list \<Rightarrow> float64" where
  "variation_fatalities filtered_df =
     guarded_variation (series_sum (map number_of_fatalities (current_data filtered_df)))
       (series_sum (map number_of_fatalities (previous_data filtered_df)))"

definition variation_injuries :: "accident list \<Rightarrow> float64" where
  "variation_injuries filtered_df =
     guarded_variation (series_sum (map number_of_injuries (current_data filtered_df)))
       (series_sum (map number_of_injuries (previous_data filtered_df)))"

subsection \<open>pages/financial.py, render_financial_page\<close>

text \<open>
  \<^verbatim>\<open>filtered_df['Date'].max() - pd.DateOffset(months=1)\<close>; the dates are first days of
  a month, so the day is kept.
\<close>

fun minus_one_month :: "date \<Rightarrow> date" where
  "minus_one_month (y, m, d) = (if m = 1 then (y - 1, 12, d) else (y, m - 1, d))"

definition previous_df :: "accident list \<Rightarrow> accident list" where
  "previous_df filtered_df =
     (case series_max (map date filtered_df) of
        None \<Rightarrow> []
      | Some mx \<Rightarrow> filter (\<lambda>r. date_le (date r) (minus_one_month mx)) filtered_df)"

text \<open>
  \<^verbatim>\<open>(total - previous) / previous * 100\<close> on numpy floats, with no test of the
  divisor.
\<close>

definition variation :: "float64 \<Rightarrow> float64 \<Rightarrow> float64" where
  "variation current previous =
     fl_mul (fl_div (fl_sub current previous) previous) (Fin 100)"

definition variation_medical_cost :: "accident list \<Rightarrow> float64" where
  "variation_medical_cost filtered_df =
     variation (series_sum (map medical_cost filtered_df))
       (series_sum (map medical_cost (previous_df filtered_df)))"

definition variation_economic_loss :: "accident list \<Rightarrow> float64" where
  "variation_economic_loss filtered_df =
     variation (series_sum (map economic_loss filtered_df))
       (series_sum (map economic_loss (previous_df filtered_df)))"

definition variation_insurance_claims :: "accident list \<Rightarrow> float64" where
  "variation_insurance_claims filtered_df =
     variation (series_sum (map insurance_claims filtered_df))
       (series_sum (map insurance_claims (previous_df filtered_df)))"

definition prev_avg :: "accident list \<Rightarrow> float64" where
  "prev_avg filtered_df =
     fl_div (series_sum (map medical_cost (previous_df filtered_df)))
       (Fin (of_nat (length (previous_df filtered_df))))"

definition variation_avg_cost :: "accident list \<Rightarrow> float64" where
  "variation_avg_cost filtered_df =
     (let avg_cost = fl_div (series_sum (map medical_cost filtered_df))
                       (Fin (of_nat (length filtered_df)))
      in variation avg_cost (prev_avg filtered_df))"

text \<open>
  A row of the month before the sample row's year, with no cost, no loss and no casualty.
\<close>

definition quiet_row :: accident where
  "quiet_row =
     sample_row\<lparr>year := 2023, month := ''December'', date := (2023, 12, 1),
       medical_cost := Fin 0, economic_loss := Fin 0, insurance_claims := Fin 0,
       number_of_fatalities := Fin 0, number_of_injuries := Fin 0\<rparr>"

text \<open>A row whose response time and number of injuries are missing.\<close>

definition missing_row :: accident where
  "missing_row = sample_row\<lparr>emergency_response_time := NaN, number_of_injuries := NaN\<rparr>"

section \<open>The loader (data_loader.py, load_data)\<close>

text \<open>
  A cell of a numeric column as \<^verbatim>\<open>pd.read_csv\<close> hands it over: text that reads as a
  number, or text that does not. \<^verbatim>\<open>pd.to_numeric(..., errors='coerce')\<close> turns the
  second kind into NaN and never raises.
\<close>

datatype cell = Parsed float64 | Unparseable string

fun to_numeric :: "cell \<Rightarrow> float64" where
  "to_numeric (Parsed x) = x"
| "to_numeric (Unparseable s) = NaN"

type_synonym csv_row = "(cell, unit) row"

text \<open>The loop over \<^verbatim>\<open>numeric_columns\<close>, for one row.\<close>

definition coerce_numeric :: "(cell, 'd) row \<Rightarrow> (float64, 'd) row" where
  "coerce_numeric r =
     \<lparr>accident_severity = accident_severity r, accident_cause = accident_cause r,
      year = year r, month = month r,
      number_of_vehicles_involved = to_numeric (number_of_vehicles_involved r),
      number_of_injuries = to_numeric (number_of_injuries r),
      number_of_fatalities = to_numeric (number_of_fatalities r),
      emergency_response_time = to_numeric (emergency_response_time r),
      driver_alcohol_level = to_numeric (driver_alcohol_level r),
      traffic_volume = to_numeric (traffic_volume r),
      medical_cost = to_numeric (medical_cost r),
      economic_loss = to_numeric (economic_loss r),
      pedestrians_involved = pedestrians_involved r,
      cyclists_involved = cyclists_involved r,
      insurance_claims = insurance_claims r,
      date = date r\<rparr>"

text \<open>The assignment of the \<^verbatim>\<open>Date\<close> column, for one row.\<close>

definition with_date :: "('n, unit) row \<Rightarrow> date \<Rightarrow> ('n, date) row" where
  "with_date r d =
     \<lparr>accident_severity = accident_severity r, accident_cause = accident_cause r,
      year = year r, month = month r,
      number_of_vehicles_involved = number_of_vehicles_involved r,
      number_of_injuries = number_of_injuries r,
      number_of_fatalities = number_of_fatalities r,
      emergency_response_time = emergency_response_time r,
      driver_alcohol_level = driver_alcohol_level r,
      traffic_volume = traffic_volume r,
      medical_cost = medical_cost r,
      economic_loss = economic_loss r,
      pedestrians_involved = pedestrians_involved r,
      cyclists_involved = cyclists_involved r,
      insurance_claims = insurance_claims r,
      date = d\<rparr>"

text \<open>
  The dictionary of the twelve month names. \<^verbatim>\<open>Series.map(month_map)\<close> looks every
  cell up, with NaN (\<open>None\<close>) for a name that is not a key.
\<close>

definition month_map :: "string \<rightharpoonup> nat" where
  "month_map = map_of
     [(''January'', 1), (''February'', 2), (''March'', 3), (''April'', 4),
      (''May'', 5), (''June'', 6), (''July'', 7), (''August'', 8),
      (''September'', 9), (''October'', 10), (''November'', 11), (''December'', 12)]"

text \<open>Python's \<^verbatim>\<open>str\<close> of a non-negative integer.\<close>

definition digit_char :: "nat \<Rightarrow> char" where
  "digit_char d = ''0123456789'' ! d"

function str_nat :: "nat \<Rightarrow> string" where
  "str_nat n = (if n < 10 then [digit_char n] else str_nat (n div 10) @ [digit_char (n mod 10)])"
  by pat_completeness auto
termination
  by (relation "measure id") auto

declare str_nat.simps [simp del]

text \<open>
  \<^verbatim>\<open>.astype(str)\<close> on the mapped months. A column of integers prints as \<^verbatim>\<open>3\<close>;
  as soon as one cell is NaN the column is a float column, which prints as \<^verbatim>\<open>3.0\<close>
  and \<^verbatim>\<open>nan\<close>.
\<close>

definition month_strings :: "nat option list \<Rightarrow> string list" where
  "month_strings ms =
     (if list_all (\<lambda>m. m \<noteq> None) ms
      then map (\<lambda>m. case m of Some k \<Rightarrow> str_nat k | None \<Rightarrow> ''nan'') ms
      else map (\<lambda>m. case m of Some k \<Rightarrow> str_nat k @ ''.0'' | None \<Rightarrow> ''nan'') ms)"

text \<open>
  \<^verbatim>\<open>pd.to_datetime\<close> with its default \<^verbatim>\<open>errors='raise'\<close>, on texts of the form
  year-month-day: three runs of decimal digits separated by \<^verbatim>\<open>-\<close>, a year of four
  digits within the range of a nanosecond timestamp, a month from 1 to 12 and a day that
  every month has (the loader only writes \<^verbatim>\<open>01\<close>). One text that does not read as a
  date raises, which is \<open>None\<close> for the whole column.
\<close>

fun split_on :: "char \<Rightarrow> string \<Rightarrow> string list" where
  "split_on c [] = [[]]"
| "split_on c (x # xs) =
     (if x = c then [] # split_on c xs
      else (x # hd (split_on c xs)) # tl (split_on c xs))"

definition is_digit :: "char \<Rightarrow> bool" where
  "is_digit c = (c \<in> set ''0123456789'')"

definition digit_val :: "char \<Rightarrow> nat" where
  "digit_val c = of_char c - 48"

definition nat_of_digits :: "string \<Rightarrow> nat option" where
  "nat_of_digits s =
     (if s \<noteq> [] \<and> list_all is_digit s
      then Some (foldl (\<lambda>a c. 10 * a + digit_val c) 0 s) else None)"

definition parse_date :: "string \<Rightarrow> date option" where
  "parse_date s =
     (case split_on CHR ''-'' s of
        [ys, ms, ds] \<Rightarrow>
          (case nat_of_digits ys of
             None \<Rightarrow> None
           | Some y \<Rightarrow>
               (case nat_of_digits ms of
                  None \<Rightarrow> None
                | Some m \<Rightarrow>
                    (case nat_of_digits ds of
                       None \<Rightarrow> None
                     | Some d \<Rightarrow>
                         if length ys = 4 \<and> 1678 \<le> y \<and> y \<le> 2261
                            \<and> 1 \<le> m \<and> m \<le> 12 \<and> 1 \<le> d \<and> d \<le> 28
                         then Some (y, m, d) else None)))
      | _ \<Rightarrow> None)"

primrec to_datetime :: "string list \<Rightarrow> date list option" where
  "to_datetime [] = Some []"
| "to_datetime (s # ss) =
     (case parse_date s of
        None \<Rightarrow> None
      | Some d \<Rightarrow> (case to_datetime ss of None \<Rightarrow> None | Some ds \<Rightarrow> Some (d # ds)))"

text \<open>
  \<^verbatim>\<open>df['Year'].astype(str) + '-' + df['Month'].map(month_map).astype(str) + '-01'\<close>
\<close>

definition date_strings :: "('n, 'd) row list \<Rightarrow> string list" where
  "date_strings df =
     map (\<lambda>(r, m). str_nat (year r) @ ''-'' @ m @ ''-01'')
       (zip df (month_strings (map (\<lambda>r. month_map (month r)) df)))"

text \<open>
  \<^verbatim>\<open>load_data\<close>. The source is \<open>None\<close> when \<^verbatim>\<open>pd.read_csv\<close> raises (no file, no
  readable table). Every exception of the body is caught: the function shows the error
  and returns \<^verbatim>\<open>None\<close>.
\<close>

definition load_data :: "csv_row list option \<Rightarrow> accident list option" where
  "load_data src =
     (case src of
        None \<Rightarrow> None
      | Some csv \<Rightarrow>
          let df = map coerce_numeric csv
          in (case to_datetime (date_strings df) of
                None \<Rightarrow> None
              | Some dates \<Rightarrow> Some (map (\<lambda>(r, d). with_date r d) (zip df dates))))"

text \<open>A source row for the examples; its response time does not read as a number.\<close>

definition csv_sample :: csv_row where
  "csv_sample =
     \<lparr>accident_severity = Some ''Severe'', accident_cause = Some ''Speeding'',
      year = 2024, month = ''March'',
      number_of_vehicles_involved = Parsed (Fin 2), number_of_injuries = Parsed (Fin 3),
      number_of_fatalities = Parsed (Fin 1), emergency_response_time = Unparseable ''n/a'',
      driver_alcohol_level = Parsed (Fin 0), traffic_volume = Parsed (Fin 100),
      medical_cost = Parsed (Fin 500), economic_loss = Parsed (Fin 1000),
      pedestrians_involved = Fin 0, cyclists_involved = Fin 1,
      insurance_claims = Fin 200, date = ()\<rparr>"

section \<open>Properties of the filter engine\<close>

lemma filter_data_Some:
  "filter_data (Some rows) fs = Some (filter (row_matches fs) rows)"
  unfolding filter_data_def row_matches_def Let_def
  by (cases "vehicles_range fs"; cases "casualties_range fs"; cases "response_time_range fs")
     (auto intro!: filter_cong)

text \<open>
  C10. Given the loader's failure value \<open>None\<close> for the data frame, \<open>filter_data\<close> returns
  \<open>None\<close>, whatever the filters are: the failure value passes through unchanged.
\<close>

theorem filter_data_None: "filter_data None fs = None"
  by (simp add: filter_data_def)

lemma row_matches_initialize: "row_matches initialize_filters r = in_neutral_domain r"
  by (simp add: row_matches_def initialize_filters_def in_neutral_domain_def)

text \<open>
  C2, as the code has it. With the initial filters the three ranges are still applied, so
  \<open>filter_data\<close> returns the data frame unchanged (same rows, same order) exactly when
  every row has its vehicle count in [1, 4], its injuries plus fatalities in [0, 23] and
  its response time present and in [5, 60]. A row outside these ranges, or with one of
  these values missing, is dropped.
\<close>

theorem filter_data_neutral_identity:
  "(filter_data (Some D) initialize_filters = Some D) = (\<forall>r \<in> set D. in_neutral_domain r)"
  by (simp add: filter_data_Some row_matches_initialize filter_id_conv)

theorem filter_data_neutral_witness:
  "(filter_data (Some [sample_row, sample_row\<lparr>number_of_injuries := Fin 0\<rparr>]) initialize_filters
      = Some [sample_row, sample_row\<lparr>number_of_injuries := Fin 0\<rparr>])
   \<and> in_neutral_domain sample_row
   \<and> in_neutral_domain (sample_row\<lparr>number_of_injuries := Fin 0\<rparr>)"
  using filter_data_neutral_identity [of "[sample_row, sample_row\<lparr>number_of_injuries := Fin 0\<rparr>]"]
  by (simp add: in_neutral_domain_def sample_row_def in_range_def total_casualties_def)

text \<open>
  C2, as stated, fails: a single row whose response time is missing is removed by the
  initial filters, so the result is not the input.
\<close>

theorem filter_data_neutral_counterexample:
  "filter_data (Some [sample_row\<lparr>emergency_response_time := NaN\<rparr>]) initialize_filters = Some []
   \<and> filter_data (Some [sample_row\<lparr>emergency_response_time := NaN\<rparr>]) initialize_filters
       \<noteq> Some [sample_row\<lparr>emergency_response_time := NaN\<rparr>]"
  by (simp add: filter_data_def initialize_filters_def sample_row_def in_range_def
      total_casualties_def isin_def)

lemma in_range_NaN: "\<not> in_range NaN rng"
  by (simp add: in_range_def)

lemma in_range_narrower:
  "in_range v new \<Longrightarrow> fst old \<le> fst new \<Longrightarrow> snd new \<le> snd old \<Longrightarrow> in_range v old"
  by (cases v) (auto simp: in_range_def)

lemma length_filter_mono:
  "(\<And>x. x \<in> set xs \<Longrightarrow> P x \<Longrightarrow> Q x) \<Longrightarrow> length (filter P xs) \<le> length (filter Q xs)"
  by (induction xs) auto

lemma restricted_row_matches:
  assumes "restricted S S'" and "row_matches S' r"
  shows "row_matches S r"
proof -
  have n: "\<And>a b v. narrower a b \<Longrightarrow>
      (case b of Some rng \<Rightarrow> in_range v rng | None \<Rightarrow> True) \<Longrightarrow>
      (case a of Some rng \<Rightarrow> in_range v rng | None \<Rightarrow> True)"
    by (auto simp: narrower_def split: option.splits intro: in_range_narrower)
  from assms(1) consider
      (v) "S' = S\<lparr>vehicles_range := vehicles_range S'\<rparr>" "narrower (vehicles_range S) (vehicles_range S')"
    | (c) "S' = S\<lparr>casualties_range := casualties_range S'\<rparr>" "narrower (casualties_range S) (casualties_range S')"
    | (t) "S' = S\<lparr>response_time_range := response_time_range S'\<rparr>" "narrower (response_time_range S) (response_time_range S')"
    | (p) "S' = S\<lparr>pedestrians := True\<rparr>"
    | (y) "S' = S\<lparr>cyclists := True\<rparr>"
    | (s) "S' = S\<lparr>severity := severity S'\<rparr>" "severity S = []"
    | (k) "S' = S\<lparr>causes := causes S'\<rparr>" "causes S = []"
    unfolding restricted_def by blast
  then show ?thesis
  proof cases
    case v
    from assms(2) have "row_matches (S\<lparr>vehicles_range := vehicles_range S'\<rparr>) r" using v(1) by simp
    then show ?thesis using n [OF v(2), of "number_of_vehicles_involved r"]
      by (simp add: row_matches_def)
  next
    case c
    from assms(2) have "row_matches (S\<lparr>casualties_range := casualties_range S'\<rparr>) r" using c(1) by simp
    then show ?thesis using n [OF c(2), of "total_casualties r"]
      by (simp add: row_matches_def)
  next
    case t
    from assms(2) have "row_matches (S\<lparr>response_time_range := response_time_range S'\<rparr>) r" using t(1) by simp
    then show ?thesis using n [OF t(2), of "emergency_response_time r"]
      by (simp add: row_matches_def)
  next
    case p
    with assms(2) have "row_matches (S\<lparr>pedestrians := True\<rparr>) r" by simp
    then show ?thesis by (simp add: row_matches_def)
  next
    case y
    with assms(2) have "row_matches (S\<lparr>cyclists := True\<rparr>) r" by simp
    then show ?thesis by (simp add: row_matches_def)
  next
    case s
    from assms(2) have "row_matches (S\<lparr>severity := severity S'\<rparr>) r" using s(1) by simp
    then show ?thesis using s(2) by (simp add: row_matches_def)
  next
    case k
    from assms(2) have "row_matches (S\<lparr>causes := causes S'\<rparr>) r" using k(1) by simp
    then show ?thesis using k(2) by (simp add: row_matches_def)
  qed
qed

text \<open>
  C5, as the code has it. When one field of the filters is made stricter (a range replaced
  by a range inside it, a toggle switched from off to on, or an empty list of severities
  or causes replaced by any list), the result has at most as many rows as before.
\<close>

theorem filter_data_monotone:
  assumes "restricted S S'"
  shows "\<exists>A B. filter_data (Some D) S = Some A \<and> filter_data (Some D) S' = Some B
           \<and> length B \<le> length A"
  using restricted_row_matches [OF assms]
  by (simp add: filter_data_Some length_filter_mono)

theorem filter_data_monotone_witness:
  "restricted initialize_filters (initialize_filters\<lparr>casualties_range := Some (4, 23)\<rparr>)
   \<and> filter_data (Some [sample_row, sample_row\<lparr>number_of_injuries := Fin 0\<rparr>]) initialize_filters
       = Some [sample_row, sample_row\<lparr>number_of_injuries := Fin 0\<rparr>]
   \<and> filter_data (Some [sample_row, sample_row\<lparr>number_of_injuries := Fin 0\<rparr>])
       (initialize_filters\<lparr>casualties_range := Some (4, 23)\<rparr>) = Some [sample_row]"
proof -
  have r: "restricted initialize_filters (initialize_filters\<lparr>casualties_range := Some (4, 23)\<rparr>)"
    by (simp add: restricted_def narrower_def initialize_filters_def)
  from filter_data_monotone [OF r, of "[sample_row, sample_row\<lparr>number_of_injuries := Fin 0\<rparr>]"]
  show ?thesis using r
    by (simp add: filter_data_Some row_matches_def initialize_filters_def sample_row_def
        in_range_def total_casualties_def isin_def)
qed

text \<open>
  C5, as stated, fails for a list that is not empty: adding \<open>Minor\<close> to the
  severities \<open>[Severe]\<close> lets a Minor row through that was excluded before, so the
  result grows from no row to one row.
\<close>

theorem filter_data_monotone_counterexample:
  "filter_data (Some [sample_row\<lparr>accident_severity := Some ''Minor''\<rparr>])
       (initialize_filters\<lparr>severity := [''Severe'']\<rparr>) = Some []
   \<and> filter_data (Some [sample_row\<lparr>accident_severity := Some ''Minor''\<rparr>])
       (initialize_filters\<lparr>severity := [''Severe'', ''Minor'']\<rparr>)
     = Some [sample_row\<lparr>accident_severity := Some ''Minor''\<rparr>]"
  by (simp add: filter_data_def initialize_filters_def sample_row_def in_range_def
      total_casualties_def isin_def)

lemma holds_copy:
  assumes "wf_store st" and "frames st a = Some D"
  shows "holds st (df_copy (a, st)) D"
  using assms
  by (auto simp: holds_def df_copy_def new_frame_def read_frame_def wf_store_def)

lemma holds_mask:
  assumes "holds st0 p ys"
  shows "holds st0 (df_mask t p) (filter t ys)"
  using assms
  by (auto simp: holds_def df_mask_def new_frame_def read_frame_def wf_store_def
      dest: less_SucI)

lemma filter_data_st_holds:
  assumes "wf_store st" and "frames st a = Some D"
  shows "\<exists>p. filter_data_st (Some a) fs st = (Some (fst p), snd p)
           \<and> holds st p (filter (row_matches fs) D)"
proof -
  define d0 where "d0 = df_copy (a, st)"
  define d1 where "d1 = (if severity fs \<noteq> []
      then df_mask (\<lambda>r. isin (accident_severity r) (severity fs)) d0 else d0)"
  define d2 where "d2 = (case vehicles_range fs of
      Some rng \<Rightarrow> df_mask (\<lambda>r. in_range (number_of_vehicles_involved r) rng) d1 | None \<Rightarrow> d1)"
  define d3 where "d3 = (if pedestrians fs
      then df_mask (\<lambda>r. fl_gt (pedestrians_involved r) 0) d2 else d2)"
  define d4 where "d4 = (if cyclists fs
      then df_mask (\<lambda>r. fl_gt (cyclists_involved r) 0) d3 else d3)"
  define d5 where "d5 = (case casualties_range fs of
      Some rng \<Rightarrow> df_mask (\<lambda>r. in_range (total_casualties r) rng) d4 | None \<Rightarrow> d4)"
  define d6 where "d6 = (case response_time_range fs of
      Some rng \<Rightarrow> df_mask (\<lambda>r. in_range (emergency_response_time r) rng) d5 | None \<Rightarrow> d5)"
  define d7 where "d7 = (if causes fs \<noteq> []
      then df_mask (\<lambda>r. isin (accident_cause r) (causes fs)) d6 else d6)"
  define t1 where "t1 = (\<lambda>r::accident. severity fs = [] \<or> isin (accident_severity r) (severity fs))"
  define t2 where "t2 = (\<lambda>r::accident. case vehicles_range fs of
      Some rng \<Rightarrow> in_range (number_of_vehicles_involved r) rng | None \<Rightarrow> True)"
  define t3 where "t3 = (\<lambda>r::accident. if pedestrians fs then fl_gt (pedestrians_involved r) 0 else True)"
  define t4 where "t4 = (\<lambda>r::accident. if cyclists fs then fl_gt (cyclists_involved r) 0 else True)"
  define t5 where "t5 = (\<lambda>r::accident. case casualties_range fs of
      Some rng \<Rightarrow> in_range (total_casualties r) rng | None \<Rightarrow> True)"
  define t6 where "t6 = (\<lambda>r::accident. case response_time_range fs of
      Some rng \<Rightarrow> in_range (emergency_response_time r) rng | None \<Rightarrow> True)"
  define t7 where "t7 = (\<lambda>r::accident. causes fs = [] \<or> isin (accident_cause r) (causes fs))"
  have h0: "holds st d0 D"
    unfolding d0_def by (rule holds_copy [OF assms])
  have h1: "holds st d1 (filter t1 D)"
    using h0 holds_mask [OF h0] by (simp add: d1_def t1_def)
  have h2: "holds st d2 (filter t2 (filter t1 D))"
    using h1 holds_mask [OF h1] by (simp add: d2_def t2_def split: option.splits)
  have h3: "holds st d3 (filter t3 (filter t2 (filter t1 D)))"
    using h2 holds_mask [OF h2] by (simp add: d3_def t3_def)
  have h4: "holds st d4 (filter t4 (filter t3 (filter t2 (filter t1 D))))"
    using h3 holds_mask [OF h3] by (simp add: d4_def t4_def)
  have h5: "holds st d5 (filter t5 (filter t4 (filter t3 (filter t2 (filter t1 D)))))"
    using h4 holds_mask [OF h4] by (simp add: d5_def t5_def split: option.splits)
  have h6: "holds st d6 (filter t6 (filter t5 (filter t4 (filter t3 (filter t2 (filter t1 D))))))"
    using h5 holds_mask [OF h5] by (simp add: d6_def t6_def split: option.splits)
  have h7: "holds st d7
      (filter t7 (filter t6 (filter t5 (filter t4 (filter t3 (filter t2 (filter t1 D)))))))"
    using h6 holds_mask [OF h6] by (simp add: d7_def t7_def)
  have c: "\<And>r. row_matches fs r = (t1 r \<and> t2 r \<and> t3 r \<and> t4 r \<and> t5 r \<and> t6 r \<and> t7 r)"
    unfolding row_matches_def t1_def t2_def t3_def t4_def t5_def t6_def t7_def by (rule refl)
  have m: "filter t7 (filter t6 (filter t5 (filter t4 (filter t3 (filter t2 (filter t1 D))))))
      = filter (row_matches fs) D"
    unfolding c filter_filter by (rule filter_cong) auto
  have r: "filter_data_st (Some a) fs st = (Some (fst d7), snd d7)"
    unfolding filter_data_st_def Let_def d7_def d6_def d5_def d4_def d3_def d2_def d1_def
      d0_def option.case
    by (rule refl)
  from r h7 m show ?thesis by auto
qed

text \<open>
  C9. Called on the reference of a data frame \<open>D\<close>, \<open>filter_data\<close> leaves every frame
  of the store as it was, \<open>D\<close> included, and returns a reference that did not exist
  before. The frame it holds is the value the pure function computes, and its rows are
  rows of \<open>D\<close> in the order they have in \<open>D\<close>.
\<close>

theorem filter_data_st_pure:
  assumes "wf_store st" and "frames st a = Some D"
  shows "\<exists>res st' ys.
           filter_data_st (Some a) fs st = (Some res, st')
           \<and> (\<forall>b. frames st b \<noteq> None \<longrightarrow> frames st' b = frames st b)
           \<and> frames st' a = Some D
           \<and> frames st res = None
           \<and> frames st' res = Some ys
           \<and> filter_data (Some D) fs = Some ys
           \<and> subseq ys D"
proof -
  from filter_data_st_holds [OF assms, of fs] obtain p where
    r: "filter_data_st (Some a) fs st = (Some (fst p), snd p)" and
    h: "holds st p (filter (row_matches fs) D)"
    by blast
  have old: "\<forall>b. frames st b \<noteq> None \<longrightarrow> frames (snd p) b = frames st b"
    using h assms(1) by (auto simp: holds_def wf_store_def)
  have new: "frames st (fst p) = None"
    using h assms(1) by (auto simp: holds_def wf_store_def)
  have res: "frames (snd p) (fst p) = Some (filter (row_matches fs) D)"
    using h by (simp add: holds_def)
  have a: "frames (snd p) a = Some D"
    using old assms(2) by simp
  show ?thesis
    using r old new res a by (simp add: filter_data_Some)
qed

theorem filter_data_st_pure_witness:
  "wf_store one_frame
   \<and> frames one_frame 0 = Some [sample_row, sample_row\<lparr>emergency_response_time := NaN\<rparr>]
   \<and> fst (filter_data_st (Some 0) initialize_filters one_frame) = Some 4
   \<and> frames (snd (filter_data_st (Some 0) initialize_filters one_frame)) 0
       = Some [sample_row, sample_row\<lparr>emergency_response_time := NaN\<rparr>]
   \<and> frames (snd (filter_data_st (Some 0) initialize_filters one_frame)) 4 = Some [sample_row]"
proof -
  have w: "wf_store one_frame"
    by (simp add: wf_store_def one_frame_def)
  have f: "frames one_frame 0 = Some [sample_row, sample_row\<lparr>emergency_response_time := NaN\<rparr>]"
    by (simp add: one_frame_def)
  have v: "filter_data (Some [sample_row, sample_row\<lparr>emergency_response_time := NaN\<rparr>])
      initialize_filters = Some [sample_row]"
    by (simp add: filter_data_Some row_matches_def initialize_filters_def sample_row_def
        in_range_def total_casualties_def isin_def)
  have n: "fst (filter_data_st (Some 0) initialize_filters one_frame) = Some 4"
    by (simp add: filter_data_st_def initialize_filters_def one_frame_def Let_def
        df_copy_def df_mask_def new_frame_def)
  from filter_data_st_pure [OF w f, of initialize_filters] v n w f
  show ?thesis by auto
qed

section \<open>Properties of the aggregation\<close>

text \<open>
  C4, as the code has it. For a data frame with at least one row the statistics carry
  exactly the five fields, and \<open>total_accidents\<close> is the number of rows. For a data
  frame without rows, and for no data frame, the result is the empty dictionary: it
  carries no field at all, and nothing is raised.
\<close>

theorem summary_count:
  "(rows \<noteq> [] \<longrightarrow>
      calculate_summary_stats (Some rows) ''total_accidents'' = Some (PyInt (length rows))
      \<and> dom (calculate_summary_stats (Some rows)) =
          {''total_accidents'', ''total_fatalities'', ''total_injuries'',
           ''avg_response_time'', ''total_economic_loss''})
   \<and> calculate_summary_stats (Some []) = Map.empty
   \<and> calculate_summary_stats None = Map.empty"
  by (auto simp: calculate_summary_stats_def)

theorem summary_count_witness:
  "calculate_summary_stats (Some [sample_row, sample_row]) ''total_accidents'' = Some (PyInt 2)
   \<and> calculate_summary_stats (Some [sample_row, sample_row]) ''total_fatalities'' = Some (PyFloat (Fin 2))"
  using summary_count [of "[sample_row, sample_row]"]
  by (simp add: calculate_summary_stats_def sample_row_def)

text \<open>
  C4, as stated, fails on the empty data frame: the result has no \<open>total_accidents\<close>
  field, and no other field.
\<close>

theorem summary_empty_counterexample:
  "calculate_summary_stats (Some []) ''total_accidents'' = None
   \<and> dom (calculate_summary_stats (Some [])) = {}"
  by (simp add: calculate_summary_stats_def)

lemma fl_div_zero: "\<not> is_finite (fl_div x (Fin 0))"
  by (cases x) auto

text \<open>
  C6. In a data frame with at least one row, for a row whose number of vehicles is 0 the
  fatality rate and the injury rate are not finite numbers (an infinity or NaN, the
  float markers of an undefined quotient): in particular they are not the number 0, and
  \<open>calculate_rates\<close> returns a row of rates for every row.
\<close>

theorem rates_zero_vehicles:
  assumes "rows \<noteq> []" and "i < length rows"
    and "number_of_vehicles_involved (rows ! i) = Fin 0"
  shows "length (calculate_rates (Some rows)) = length rows
     \<and> \<not> is_finite (fatality_rate (calculate_rates (Some rows) ! i))
     \<and> \<not> is_finite (injury_rate (calculate_rates (Some rows) ! i))
     \<and> fatality_rate (calculate_rates (Some rows) ! i) \<noteq> Fin 0
     \<and> injury_rate (calculate_rates (Some rows) ! i) \<noteq> Fin 0"
proof -
  have f: "\<not> is_finite (fatality_rate (calculate_rates (Some rows) ! i))"
    using assms by (simp add: calculate_rates_def fl_div_zero)
  have j: "\<not> is_finite (injury_rate (calculate_rates (Some rows) ! i))"
    using assms by (simp add: calculate_rates_def fl_div_zero)
  have l: "length (calculate_rates (Some rows)) = length rows"
    by (simp add: calculate_rates_def)
  from f j l show ?thesis by auto
qed

theorem rates_zero_vehicles_witness:
  "fatality_rate (calculate_rates (Some [sample_row\<lparr>number_of_vehicles_involved := Fin 0\<rparr>]) ! 0) = PInf
   \<and> injury_rate (calculate_rates (Some [sample_row\<lparr>number_of_vehicles_involved := Fin 0\<rparr>]) ! 0) = PInf"
  using rates_zero_vehicles [of "[sample_row\<lparr>number_of_vehicles_involved := Fin 0\<rparr>]" 0]
  by (simp add: calculate_rates_def sample_row_def)

lemma rates_severity_index_finite:
  assumes "rows \<noteq> []" and "i < length rows"
    and "number_of_fatalities (rows ! i) = Fin f" and "number_of_injuries (rows ! i) = Fin j"
  shows "severity_index (calculate_rates (Some rows) ! i) = Fin ((f * 5 + j) / of_nat (length rows))"
  using assms by (simp add: calculate_rates_def)

lemma severity_index_depends_on_size:
  assumes "rows \<noteq> []" and "rows' \<noteq> []" and "i < length rows" and "k < length rows'"
    and "rows' ! k = rows ! i"
    and "number_of_fatalities (rows ! i) = Fin f" and "number_of_injuries (rows ! i) = Fin j"
    and "f * 5 + j \<noteq> 0" and "length rows \<noteq> length rows'"
  shows "severity_index (calculate_rates (Some rows) ! i)
           \<noteq> severity_index (calculate_rates (Some rows') ! k)"
proof -
  have a: "severity_index (calculate_rates (Some rows) ! i)
      = Fin ((f * 5 + j) / of_nat (length rows))"
    using assms by (simp add: rates_severity_index_finite)
  have b: "severity_index (calculate_rates (Some rows') ! k)
      = Fin ((f * 5 + j) / of_nat (length rows'))"
    using assms by (simp add: rates_severity_index_finite)
  have "(f * 5 + j) / of_nat (length rows) \<noteq> (f * 5 + j) / of_nat (length rows')"
    using assms by (simp add: field_simps)
  then show ?thesis
    by (simp add: a b)
qed

text \<open>
  C7, as the code has it. In a data frame with at least one row, the severity index of
  every row is (fatalities * 5 + injuries) divided by the number of rows of the whole
  data frame. So the index of a row whose fatalities * 5 + injuries is a finite number
  other than 0 is different in data frames of different sizes, while a row with 0
  fatalities and 0 injuries has the index 0 whatever the size.
\<close>

theorem rates_severity_index:
  assumes "rows \<noteq> []" and "i < length rows"
  shows "severity_index (calculate_rates (Some rows) ! i) =
       fl_div (fl_add (fl_mul (number_of_fatalities (rows ! i)) (Fin 5))
                 (number_of_injuries (rows ! i)))
         (Fin (of_nat (length rows)))
     \<and> (rows' \<noteq> [] \<and> k < length rows' \<and> rows' ! k = rows ! i
          \<and> number_of_fatalities (rows ! i) = Fin f \<and> number_of_injuries (rows ! i) = Fin j
          \<and> f * 5 + j \<noteq> 0 \<and> length rows \<noteq> length rows'
        \<longrightarrow> severity_index (calculate_rates (Some rows) ! i)
              \<noteq> severity_index (calculate_rates (Some rows') ! k))
     \<and> (number_of_fatalities (rows ! i) = Fin 0 \<and> number_of_injuries (rows ! i) = Fin 0
        \<longrightarrow> severity_index (calculate_rates (Some rows) ! i) = Fin 0)"
proof -
  have a: "severity_index (calculate_rates (Some rows) ! i) =
       fl_div (fl_add (fl_mul (number_of_fatalities (rows ! i)) (Fin 5))
                 (number_of_injuries (rows ! i)))
         (Fin (of_nat (length rows)))"
    using assms by (simp add: calculate_rates_def)
  have b: "rows' \<noteq> [] \<and> k < length rows' \<and> rows' ! k = rows ! i
          \<and> number_of_fatalities (rows ! i) = Fin f \<and> number_of_injuries (rows ! i) = Fin j
          \<and> f * 5 + j \<noteq> 0 \<and> length rows \<noteq> length rows'
        \<longrightarrow> severity_index (calculate_rates (Some rows) ! i)
              \<noteq> severity_index (calculate_rates (Some rows') ! k)"
    using assms severity_index_depends_on_size [of rows rows' i k f j] by blast
  have c: "number_of_fatalities (rows ! i) = Fin 0 \<and> number_of_injuries (rows ! i) = Fin 0
        \<longrightarrow> severity_index (calculate_rates (Some rows) ! i) = Fin 0"
    using assms rates_severity_index_finite [of rows i 0 0] by auto
  from a b c show ?thesis by blast
qed

theorem rates_severity_index_witness:
  "severity_index (calculate_rates (Some [sample_row]) ! 0) = Fin 8
   \<and> severity_index (calculate_rates (Some [sample_row, sample_row]) ! 1) = Fin 4
   \<and> severity_index (calculate_rates (Some [sample_row]) ! 0)
       \<noteq> severity_index (calculate_rates (Some [sample_row, sample_row]) ! 1)
   \<and> severity_index (calculate_rates (Some [quiet_row]) ! 0) = Fin 0"
proof -
  have s: "number_of_fatalities sample_row = Fin 1" "number_of_injuries sample_row = Fin 3"
    by (simp_all add: sample_row_def)
  have q: "number_of_fatalities quiet_row = Fin 0" "number_of_injuries quiet_row = Fin 0"
    by (simp_all add: quiet_row_def)
  from rates_severity_index [where rows = "[sample_row]" and i = 0
      and rows' = "[sample_row, sample_row]" and k = 1 and f = 1 and j = 3]
    rates_severity_index [where rows = "[sample_row, sample_row]" and i = 1
      and rows' = "[sample_row]" and k = 0 and f = 1 and j = 3]
    rates_severity_index [where rows = "[quiet_row]" and i = 0
      and rows' = "[quiet_row]" and k = 0 and f = 0 and j = 0] s q
  show ?thesis by simp
qed

text \<open>
  C7, as stated, fails in its last part: a row with 0 fatalities and 0 injuries has the
  index 0 in a data frame of one row and in a data frame of two rows, so its index does
  not change when the size of the filtered set changes.
\<close>

theorem rates_severity_index_counterexample:
  "length [quiet_row] \<noteq> length [quiet_row, sample_row]
   \<and> severity_index (calculate_rates (Some [quiet_row]) ! 0) = Fin 0
   \<and> severity_index (calculate_rates (Some [quiet_row, sample_row]) ! 0) = Fin 0
   \<and> severity_index (calculate_rates (Some [quiet_row]) ! 0)
       = severity_index (calculate_rates (Some [quiet_row, sample_row]) ! 0)"
  by (simp add: calculate_rates_def quiet_row_def sample_row_def)

lemma total_casualties_NaN:
  "number_of_injuries r = NaN \<or> number_of_fatalities r = NaN \<Longrightarrow> total_casualties r = NaN"
  by (cases "number_of_injuries r"; cases "number_of_fatalities r")
     (auto simp: total_casualties_def)

lemma present_values_filter:
  "present_values (filter (\<lambda>x. x \<noteq> NaN) xs) = present_values xs"
  by (induction xs rule: present_values.induct) auto

lemma series_sum_present:
  "list_all finite_or_missing xs \<Longrightarrow> series_sum xs = Fin (sum_list (present_values xs))"
  by (induction xs rule: present_values.induct) auto

lemma length_present:
  "list_all finite_or_missing xs \<Longrightarrow>
     length (filter (\<lambda>x. x \<noteq> NaN) xs) = length (present_values xs)"
  by (induction xs rule: present_values.induct) auto

lemma series_mean_present:
  assumes "list_all finite_or_missing xs"
  shows "series_mean xs = mean_of (present_values xs)"
proof -
  let ?ys = "filter (\<lambda>x. x \<noteq> NaN) xs"
  have a: "list_all finite_or_missing ?ys"
    using assms by (simp add: list_all_iff)
  have s: "series_sum ?ys = Fin (sum_list (present_values xs))"
    using series_sum_present [OF a] by (simp add: present_values_filter)
  have l: "length ?ys = length (present_values xs)"
    by (rule length_present [OF assms])
  have e: "(?ys = []) = (present_values xs = [])"
    using l by (metis length_0_conv)
  show ?thesis
    unfolding series_mean_def mean_of_def Let_def s l e by simp
qed

lemma series_mean_all_NaN: "\<forall>x \<in> set xs. x = NaN \<Longrightarrow> series_mean xs = NaN"
  by (simp add: series_mean_def filter_empty_conv)

text \<open>
  C8. A row whose response time is missing does not satisfy the response-time range, and
  a row whose injuries or fatalities are missing does not satisfy the casualties range:
  when the filters hold that range, the row is not in the result. In the statistics of a
  data frame with rows, each sum is the sum of the values that are present and the mean
  response time is the mean of the values that are present (for columns without an
  infinity); when every response time is missing the mean is NaN, not 0.
\<close>

theorem missing_value_propagation:
  "(r \<in> set D \<and> filter_data (Some D) fs = Some R \<and> response_time_range fs = Some rng
      \<and> emergency_response_time r = NaN
      \<longrightarrow> \<not> in_range (emergency_response_time r) rng \<and> r \<notin> set R)
   \<and> (r \<in> set D \<and> filter_data (Some D) fs = Some R \<and> casualties_range fs = Some rng
      \<and> (number_of_injuries r = NaN \<or> number_of_fatalities r = NaN)
      \<longrightarrow> \<not> in_range (total_casualties r) rng \<and> r \<notin> set R)
   \<and> (D \<noteq> [] \<and> list_all finite_or_missing (map number_of_fatalities D)
      \<longrightarrow> calculate_summary_stats (Some D) ''total_fatalities''
           = Some (PyFloat (Fin (sum_list (present_values (map number_of_fatalities D))))))
   \<and> (D \<noteq> [] \<and> list_all finite_or_missing (map number_of_injuries D)
      \<longrightarrow> calculate_summary_stats (Some D) ''total_injuries''
           = Some (PyFloat (Fin (sum_list (present_values (map number_of_injuries D))))))
   \<and> (D \<noteq> [] \<and> list_all finite_or_missing (map economic_loss D)
      \<longrightarrow> calculate_summary_stats (Some D) ''total_economic_loss''
           = Some (PyFloat (Fin (sum_list (present_values (map economic_loss D))))))
   \<and> (D \<noteq> [] \<and> list_all finite_or_missing (map emergency_response_time D)
      \<longrightarrow> calculate_summary_stats (Some D) ''avg_response_time''
           = Some (PyFloat (mean_of (present_values (map emergency_response_time D)))))
   \<and> (D \<noteq> [] \<and> (\<forall>x \<in> set D. emergency_response_time x = NaN)
      \<longrightarrow> calculate_summary_stats (Some D) ''avg_response_time'' = Some (PyFloat NaN)
          \<and> calculate_summary_stats (Some D) ''avg_response_time'' \<noteq> Some (PyFloat (Fin 0)))"
proof -
  have p1: "r \<in> set D \<and> filter_data (Some D) fs = Some R \<and> response_time_range fs = Some rng
      \<and> emergency_response_time r = NaN
      \<longrightarrow> \<not> in_range (emergency_response_time r) rng \<and> r \<notin> set R"
    by (auto simp: filter_data_Some row_matches_def in_range_NaN)
  have p2: "r \<in> set D \<and> filter_data (Some D) fs = Some R \<and> casualties_range fs = Some rng
      \<and> (number_of_injuries r = NaN \<or> number_of_fatalities r = NaN)
      \<longrightarrow> \<not> in_range (total_casualties r) rng \<and> r \<notin> set R"
    using total_casualties_NaN [of r]
    by (auto simp: filter_data_Some row_matches_def in_range_NaN)
  have p3: "D \<noteq> [] \<and> list_all finite_or_missing (map number_of_fatalities D)
      \<longrightarrow> calculate_summary_stats (Some D) ''total_fatalities''
           = Some (PyFloat (Fin (sum_list (present_values (map number_of_fatalities D)))))"
    by (simp add: calculate_summary_stats_def series_sum_present)
  have p4: "D \<noteq> [] \<and> list_all finite_or_missing (map number_of_injuries D)
      \<longrightarrow> calculate_summary_stats (Some D) ''total_injuries''
           = Some (PyFloat (Fin (sum_list (present_values (map number_of_injuries D)))))"
    by (simp add: calculate_summary_stats_def series_sum_present)
  have p5: "D \<noteq> [] \<and> list_all finite_or_missing (map economic_loss D)
      \<longrightarrow> calculate_summary_stats (Some D) ''total_economic_loss''
           = Some (PyFloat (Fin (sum_list (present_values (map economic_loss D)))))"
    by (simp add: calculate_summary_stats_def series_sum_present)
  have p6: "D \<noteq> [] \<and> list_all finite_or_missing (map emergency_response_time D)
      \<longrightarrow> calculate_summary_stats (Some D) ''avg_response_time''
           = Some (PyFloat (mean_of (present_values (map emergency_response_time D))))"
    by (simp add: calculate_summary_stats_def series_mean_present)
  have p7: "D \<noteq> [] \<and> (\<forall>x \<in> set D. emergency_response_time x = NaN)
      \<longrightarrow> calculate_summary_stats (Some D) ''avg_response_time'' = Some (PyFloat NaN)
          \<and> calculate_summary_stats (Some D) ''avg_response_time'' \<noteq> Some (PyFloat (Fin 0))"
    by (simp add: calculate_summary_stats_def series_mean_all_NaN)
  from p1 p2 p3 p4 p5 p6 p7 show ?thesis by blast
qed

theorem missing_value_propagation_witness:
  "filter_data (Some [sample_row, missing_row]) initialize_filters = Some [sample_row]
   \<and> missing_row \<notin> set [sample_row]
   \<and> calculate_summary_stats (Some [sample_row, missing_row]) ''total_fatalities''
       = Some (PyFloat (Fin 2))
   \<and> calculate_summary_stats (Some [sample_row, missing_row]) ''total_injuries''
       = Some (PyFloat (Fin 3))
   \<and> calculate_summary_stats (Some [sample_row, missing_row]) ''total_economic_loss''
       = Some (PyFloat (Fin 2000))
   \<and> calculate_summary_stats (Some [sample_row, missing_row]) ''avg_response_time''
       = Some (PyFloat (Fin 12))
   \<and> calculate_summary_stats (Some [missing_row]) ''avg_response_time'' = Some (PyFloat NaN)"
proof -
  have f: "filter_data (Some [sample_row, missing_row]) initialize_filters = Some [sample_row]"
    by (simp add: filter_data_Some row_matches_def initialize_filters_def sample_row_def
        missing_row_def in_range_def total_casualties_def isin_def)
  have m: "emergency_response_time missing_row = NaN" "number_of_injuries missing_row = NaN"
    by (simp_all add: missing_row_def)
  have c: "list_all finite_or_missing (map number_of_fatalities [sample_row, missing_row])"
    "list_all finite_or_missing (map number_of_injuries [sample_row, missing_row])"
    "list_all finite_or_missing (map economic_loss [sample_row, missing_row])"
    "list_all finite_or_missing (map emergency_response_time [sample_row, missing_row])"
    by (simp_all add: sample_row_def missing_row_def)
  have v: "present_values (map number_of_fatalities [sample_row, missing_row]) = [1, 1]"
    "present_values (map number_of_injuries [sample_row, missing_row]) = [3]"
    "present_values (map economic_loss [sample_row, missing_row]) = [1000, 1000]"
    "present_values (map emergency_response_time [sample_row, missing_row]) = [12]"
    by (simp_all add: sample_row_def missing_row_def)
  note a = missing_value_propagation [where r = missing_row and D = "[sample_row, missing_row]"
      and fs = initialize_filters and R = "[sample_row]" and rng = "(5, 60)"]
  note b = missing_value_propagation [where r = missing_row and D = "[sample_row, missing_row]"
      and fs = initialize_filters and R = "[sample_row]" and rng = "(0, 23)"]
  note d = missing_value_propagation [where r = missing_row and D = "[missing_row]"
      and fs = initialize_filters and R = "[]" and rng = "(5, 60)"]
  have r: "response_time_range initialize_filters = Some (5, 60)"
    "casualties_range initialize_filters = Some (0, 23)"
    by (simp_all add: initialize_filters_def)
  from a b d f m c v r show ?thesis
    by (simp add: mean_of_def)
qed

section \<open>Properties of the period-over-period figures\<close>

lemma guarded_variation_zero: "guarded_variation current (Fin 0) = Fin 0"
  by (simp add: guarded_variation_def)

lemma variation_zero: "\<not> is_finite (variation current (Fin 0))"
  by (cases current) (auto simp: variation_def fl_sub_def)

text \<open>
  C1, as the code has it. On the temporal page a previous-period aggregate of 0 (no
  accident, no fatality, no injury in the previous year) gives the variation 0, by the
  test written in the expression. On the financial page the divisor is not tested: a
  previous-period aggregate of 0 gives a variation that is not a finite number (an
  infinity or NaN). Neither page raises.
\<close>

theorem previous_zero_variation:
  "(length (previous_data df) = 0 \<longrightarrow> variation_accidents df = Fin 0)
   \<and> (series_sum (map number_of_fatalities (previous_data df)) = Fin 0
        \<longrightarrow> variation_fatalities df = Fin 0)
   \<and> (series_sum (map number_of_injuries (previous_data df)) = Fin 0
        \<longrightarrow> variation_injuries df = Fin 0)
   \<and> (series_sum (map medical_cost (previous_df df)) = Fin 0
        \<longrightarrow> \<not> is_finite (variation_medical_cost df))
   \<and> (series_sum (map economic_loss (previous_df df)) = Fin 0
        \<longrightarrow> \<not> is_finite (variation_economic_loss df))
   \<and> (series_sum (map insurance_claims (previous_df df)) = Fin 0
        \<longrightarrow> \<not> is_finite (variation_insurance_claims df))
   \<and> (prev_avg df = Fin 0 \<longrightarrow> \<not> is_finite (variation_avg_cost df))"
  by (simp add: variation_accidents_def variation_fatalities_def variation_injuries_def
      variation_medical_cost_def variation_economic_loss_def variation_insurance_claims_def
      variation_avg_cost_def guarded_variation_zero variation_zero Let_def)

theorem previous_zero_variation_witness:
  "length (previous_data [sample_row]) = 0
   \<and> variation_accidents [sample_row] = Fin 0
   \<and> previous_data [sample_row, quiet_row] = [quiet_row]
   \<and> previous_df [sample_row, quiet_row] = [quiet_row]
   \<and> variation_fatalities [sample_row, quiet_row] = Fin 0
   \<and> variation_injuries [sample_row, quiet_row] = Fin 0
   \<and> variation_medical_cost [sample_row, quiet_row] = PInf
   \<and> variation_economic_loss [sample_row, quiet_row] = PInf
   \<and> variation_insurance_claims [sample_row, quiet_row] = PInf
   \<and> prev_avg [sample_row, quiet_row] = Fin 0
   \<and> variation_avg_cost [sample_row, quiet_row] = PInf"
proof -
  have p: "previous_data [sample_row, quiet_row] = [quiet_row]"
    by (simp add: previous_data_def sample_row_def quiet_row_def)
  have q: "previous_df [sample_row, quiet_row] = [quiet_row]"
    by (simp add: previous_df_def sample_row_def quiet_row_def)
  have e: "previous_data [sample_row] = []"
    by (simp add: previous_data_def sample_row_def)
  have z: "medical_cost quiet_row = Fin 0" "economic_loss quiet_row = Fin 0"
    "insurance_claims quiet_row = Fin 0" "number_of_fatalities quiet_row = Fin 0"
    "number_of_injuries quiet_row = Fin 0"
    by (simp_all add: quiet_row_def)
  have s: "medical_cost sample_row = Fin 500" "economic_loss sample_row = Fin 1000"
    "insurance_claims sample_row = Fin 200"
    by (simp_all add: sample_row_def)
  from previous_zero_variation [of "[sample_row]"]
    previous_zero_variation [of "[sample_row, quiet_row]"] p q e z s
  show ?thesis
    by (simp add: prev_avg_def variation_medical_cost_def variation_economic_loss_def
        variation_insurance_claims_def variation_avg_cost_def variation_def fl_sub_def)
qed

text \<open>
  C1, as stated, fails on the temporal page: for a data frame whose only row is of 2024
  there is no accident of the previous year, and the variation of the accidents is the
  finite number 0; so is the variation of the fatalities.
\<close>

theorem previous_zero_variation_counterexample:
  "length (previous_data [sample_row]) = 0
   \<and> variation_accidents [sample_row] = Fin 0
   \<and> is_finite (variation_accidents [sample_row])
   \<and> series_sum (map number_of_fatalities (previous_data [sample_row])) = Fin 0
   \<and> variation_fatalities [sample_row] = Fin 0"
  by (simp add: previous_data_def current_data_def variation_accidents_def
      variation_fatalities_def guarded_variation_def sample_row_def)

section \<open>Properties of the loader\<close>

lemma str_2024: "str_nat 2024 = ''2024''"
  by (simp add: str_nat.simps [of 2024] str_nat.simps [of 202] str_nat.simps [of 20]
      str_nat.simps [of 2] digit_char_def)

lemma str_3: "str_nat 3 = ''3''"
  by (simp add: str_nat.simps [of 3] digit_char_def)

lemma parse_ok: "parse_date ''2024-3-01'' = Some (2024, 3, 1)"
  by (simp add: parse_date_def nat_of_digits_def is_digit_def digit_val_def)

lemma load_ok: "load_data (Some [csv_sample]) = Some [sample_row\<lparr>emergency_response_time := NaN\<rparr>]"
  by (simp add: load_data_def date_strings_def month_strings_def month_map_def csv_sample_def
      coerce_numeric_def with_date_def str_2024 str_3 parse_ok sample_row_def)

lemma split_on_not_Nil: "split_on c xs \<noteq> []"
  by (induction xs) auto

lemma split_on_append: "split_on c (p @ c # q) = split_on c p @ split_on c q"
  by (induction p) (auto simp: split_on_not_Nil)

lemma nat_of_digits_nan: "nat_of_digits ''nan'' = None"
  by (simp add: nat_of_digits_def is_digit_def)

lemma parse_date_nan: "parse_date (p @ ''-nan-01'') = None"
proof -
  have s: "split_on CHR ''-'' (p @ ''-nan-01'') = split_on CHR ''-'' p @ [''nan'', ''01'']"
    using split_on_append [of "CHR ''-''" p "''nan-01''"] by simp
  obtain a L where L: "split_on CHR ''-'' p = a # L"
    using split_on_not_Nil [of "CHR ''-''" p] by (cases "split_on CHR ''-'' p") auto
  show ?thesis
  proof (cases L)
    case Nil
    then show ?thesis
      by (simp add: parse_date_def s L nat_of_digits_nan split: option.splits)
  next
    case (Cons b M)
    then show ?thesis
      by (simp add: parse_date_def s L split: list.splits)
  qed
qed

lemma to_datetime_fails:
  "s \<in> set ss \<Longrightarrow> parse_date s = None \<Longrightarrow> to_datetime ss = None"
  by (induction ss) (auto split: option.splits)

lemma zip_map_self: "zip xs (map f xs) = map (\<lambda>x. (x, f x)) xs"
  by (induction xs) auto

lemma date_strings_unknown:
  assumes "r \<in> set df" and "month_map (month r) = None"
  shows "str_nat (year r) @ ''-nan-01'' \<in> set (date_strings df)"
proof -
  have n: "\<not> list_all (\<lambda>m. m \<noteq> None) (map (\<lambda>r. month_map (month r)) df)"
    using assms by (auto simp: list_all_iff)
  have "date_strings df =
      map (\<lambda>r. str_nat (year r) @ ''-'' @
             (case month_map (month r) of Some k \<Rightarrow> str_nat k @ ''.0'' | None \<Rightarrow> ''nan'')
             @ ''-01'') df"
    unfolding date_strings_def month_strings_def using n
    by (simp add: zip_map_self comp_def)
  then show ?thesis
    using assms by (force simp: image_iff)
qed

text \<open>
  C3, as the code has it. When a row of the source has a Month that is not one of the
  twelve keys of \<open>month_map\<close>, the text built for its date holds \<^verbatim>\<open>nan\<close> in place of
  the month, the conversion of the dates raises, and \<open>load_data\<close> returns \<open>None\<close>: the
  load as a whole fails and no row is kept.
\<close>

theorem load_data_unknown_month:
  assumes "r \<in> set csv" and "month_map (month r) = None"
  shows "load_data (Some csv) = None"
proof -
  let ?df = "map coerce_numeric csv"
  have m: "coerce_numeric r \<in> set ?df"
    using assms(1) by simp
  have k: "month_map (month (coerce_numeric r)) = None"
    using assms(2) by (simp add: coerce_numeric_def)
  from date_strings_unknown [OF m k]
  have "to_datetime (date_strings ?df) = None"
    by (rule to_datetime_fails) (rule parse_date_nan)
  then show ?thesis
    by (simp add: load_data_def)
qed

theorem load_data_unknown_month_witness:
  "month_map (month (csv_sample\<lparr>month := ''march''\<rparr>)) = None
   \<and> load_data (Some [csv_sample, csv_sample\<lparr>month := ''march''\<rparr>]) = None
   \<and> load_data (Some [csv_sample]) = Some [sample_row\<lparr>emergency_response_time := NaN\<rparr>]"
proof -
  have k: "month_map (month (csv_sample\<lparr>month := ''march''\<rparr>)) = None"
    by (simp add: month_map_def)
  have i: "csv_sample\<lparr>month := ''march''\<rparr> \<in> set [csv_sample, csv_sample\<lparr>month := ''march''\<rparr>]"
    by simp
  from load_data_unknown_month [OF i k] k load_ok show ?thesis
    by simp
qed

text \<open>
  C3, as stated, fails: a readable source of two rows, the second with the month
  \<^verbatim>\<open>Mars\<close>, does not load; the result is \<open>None\<close>, not two rows of which one has an
  invalid date.
\<close>

lemma parse_float_month: "parse_date ''2024-3.0-01'' = None"
  by (simp add: parse_date_def nat_of_digits_def is_digit_def digit_val_def)

theorem load_data_unknown_month_counterexample:
  "load_data (Some [csv_sample, csv_sample\<lparr>month := ''Mars''\<rparr>]) = None"
  by (simp add: load_data_def date_strings_def month_strings_def month_map_def csv_sample_def
      coerce_numeric_def str_2024 str_3 parse_float_month)

end
